theory Spec2Isabelle
  imports Main
begin

section \<open>The pipeline stack of \<^verbatim>\<open>pipeline-stack.ts\<close>\<close>

text \<open>
  The source is one class, \<^verbatim>\<open>PipelineStack\<close>, whose constructor builds a CodePipeline
  with the stages Source, Build, (Approval,) Deploy, two CodeBuild projects, the three
  or four actions and one notification rule. The constructor is modelled as a function
  from the environment descriptor to either an error or the finished stack.

  The constructor calls into the CDK library. The calls it makes are modelled by what
  the library does at construction time:
  \<^item> \<^verbatim>\<open>new X(this, id, ...)\<close> and \<^verbatim>\<open>X.fromY(this, id, ...)\<close> add a child named
    \<^verbatim>\<open>id\<close> to the scope and throw when the scope already has a child of that name;
  \<^item> \<^verbatim>\<open>Pipeline.addStage\<close> throws on a duplicate stage name and on a placement that
    names a stage the pipeline does not hold, and splices the stage in otherwise;
  \<^item> \<^verbatim>\<open>Stage.addAction\<close> throws on a duplicate action name within the stage and
    appends the action otherwise;
  \<^item> \<^verbatim>\<open>new s3.Bucket\<close> throws on a bucket name that breaks the naming rules; both
    bucket names are built from \<^verbatim>\<open>ENV\<close>;
  \<^item> \<^verbatim>\<open>vpc.selectSubnets\<close> throws when a selected subnet was imported without an
    availability zone, which is what \<^verbatim>\<open>Fn.select\<close> leaves behind when the
    descriptor's list of zones is too short.
  The library makes further checks that the model leaves out (the syntax of the other
  names, the resolution of tokens at synthesis). A check can only make the constructor
  throw: whenever the constructor returns, so does the model, with the stack described
  here. The converse is not claimed, and every claim about the constructed stack is
  stated for a stack that the constructor has returned.

  Values only known at deployment (ARNs, parameter values, secret values) are written
  as the references that the deployment resolves. Roles, policies and the other
  imported resources enter the model with their construct ids only: no claim depends on
  their properties.
\<close>

subsection \<open>Data model\<close>

text \<open>
  \<^verbatim>\<open>CodebuildOptions\<close> is imported from \<^verbatim>\<open>./types\<close>; the record has the fields the
  constructor reads.

  Names are the source's, but for a few properties whose names are taken: an environment
  variable's \<^verbatim>\<open>type\<close> and \<^verbatim>\<open>value\<close> are \<open>varType\<close> and \<open>varValue\<close>, the source
  action's properties \<^verbatim>\<open>branch\<close> and \<^verbatim>\<open>output\<close> are \<open>sourceBranch\<close> and
  \<open>outputArtifact\<close>, the notification rule's \<^verbatim>\<open>name\<close> is \<open>ruleName\<close>, and a
  construct's id is stored with the object it names (\<open>pipelineId\<close>, \<open>ruleId\<close>).
\<close>

record CodebuildOptions =
  ENV :: string
  testStage :: string
  productionStage :: string
  branch :: string
  vpcId :: string
  availabilityZones :: "string list"
  publicSubnetIds :: "string list"
  privateSubnetIds :: "string list"
  privateSubnetRouteTableIds :: "string list"
  publicSubnetRouteTableIds :: "string list"

datatype error =
  DuplicateConstruct string
  | DuplicateStage string
  | StageNotInPipeline string
  | DuplicateAction string string
  | InvalidBucketName string
  | SubnetWithoutAvailabilityZone

fun andThen :: "error + 'a \<Rightarrow> ('a \<Rightarrow> error + 'b) \<Rightarrow> error + 'b" where
  "andThen (Inl e) f = Inl e"
| "andThen (Inr x) f = f x"

text \<open>
  An artifact object. \<^verbatim>\<open>new codepipeline.Artifact(name)\<close> makes a new object each time
  it runs: \<open>objectId\<close> is the object's identity, its position among the artifacts
  allocated so far.
\<close>

datatype Artifact = Artifact (objectId: nat) (artifactName: string)

definition newArtifact :: "string \<Rightarrow> Artifact list \<Rightarrow> Artifact \<times> Artifact list" where
  "newArtifact name allocated =
     (Artifact (length allocated) name, allocated @ [Artifact (length allocated) name])"

text \<open>\<^verbatim>\<open>cdk.SecretValue.secretsManager(secretId)\<close>: a handle on a secret, not its value.\<close>

datatype SecretValue = secretsManager (secretId: string)

text \<open>
  \<^verbatim>\<open>SecretValue.toString()\<close> is the dynamic reference that the deployment replaces by
  the secret's value.
\<close>

definition toString :: "SecretValue \<Rightarrow> string" where
  "toString s = ''{{resolve:secretsmanager:'' @ secretId s @ '':SecretString:::}}''"

datatype BuildEnvironmentVariableType = PLAINTEXT | PARAMETER_STORE | SECRETS_MANAGER

text \<open>An environment variable; \<open>varType = None\<close> is the source's omitted \<^verbatim>\<open>type\<close>.\<close>

record BuildEnvironmentVariable =
  varType :: "BuildEnvironmentVariableType option"
  varValue :: string

text \<open>The type CodeBuild gives a variable: \<^verbatim>\<open>PLAINTEXT\<close> unless one is declared.\<close>

definition effectiveType :: "BuildEnvironmentVariable \<Rightarrow> BuildEnvironmentVariableType" where
  "effectiveType v = (case varType v of None \<Rightarrow> PLAINTEXT | Some t \<Rightarrow> t)"

record PipelineProject =
  projectName :: string
  description :: string
  environmentVariables :: "(string \<times> BuildEnvironmentVariable) list"
  buildImage :: string
  privileged :: bool
  buildSpec :: string

datatype GitHubTrigger = NONE | POLL | WEBHOOK

datatype Action =
  GitHubSourceAction
    (actionName: string) (owner: string) (repo: string) (oauthToken: SecretValue)
    (sourceBranch: string) (trigger: GitHubTrigger) (outputArtifact: Artifact)
  | CodeBuildAction
    (actionName: string) (input: Artifact) (outputs: "Artifact list")
    (project: PipelineProject)
  | ManualApprovalAction
    (actionName: string) (notificationTopic: string) (externalEntityLink: string)
    (additionalInformation: string)

text \<open>
  The branch the library configures a source action with:
  \<^verbatim>\<open>this.props.branch || 'master'\<close>.
\<close>

definition configuredBranch :: "Action \<Rightarrow> string" where
  "configuredBranch a = (if sourceBranch a = [] then ''master'' else sourceBranch a)"

text \<open>The artifacts an action consumes and produces (its \<^verbatim>\<open>actionProperties\<close>).\<close>

fun actionInputs :: "Action \<Rightarrow> Artifact list" where
  "actionInputs (GitHubSourceAction n ow rp tok br tr out) = []"
| "actionInputs (CodeBuildAction n i outs prj) = [i]"
| "actionInputs (ManualApprovalAction n topic link info) = []"

fun actionOutputs :: "Action \<Rightarrow> Artifact list" where
  "actionOutputs (GitHubSourceAction n ow rp tok br tr out) = [out]"
| "actionOutputs (CodeBuildAction n i outs prj) = outs"
| "actionOutputs (ManualApprovalAction n topic link info) = []"

text \<open>
  A stage reference (\<^verbatim>\<open>IStage\<close>) is the stage's name: \<^verbatim>\<open>addStage\<close> keeps the names
  of a pipeline's stages distinct.
\<close>

type_synonym IStage = string

datatype StagePlacement = justAfter IStage

record StageOptions =
  stageName :: string
  placement :: "StagePlacement option"

text \<open>
  A stage with its actions in the order added. The model also keeps the options the stage
  was added with, so that the placement directive can be read off the finished pipeline.
\<close>

record Stage = StageOptions +
  actions :: "Action list"

record Pipeline =
  pipelineId :: string
  pipelineName :: string
  restartExecutionOnUpdate :: bool
  artifactBucket :: string
  stages :: "Stage list"

record NotificationTarget =
  targetType :: string
  targetAddress :: string

record CfnNotificationRule =
  ruleId :: string
  detailType :: string
  eventTypeIds :: "string list"
  ruleName :: string
  resource :: string
  targets :: "NotificationTarget list"

text \<open>
  The scope \<^verbatim>\<open>this\<close>: the ids of the constructs created in it, in creation order, and
  the notification rules among them.
\<close>

record Stack =
  children :: "string list"
  notificationRules :: "CfnNotificationRule list"

text \<open>What the constructor leaves behind: the scope and the pipeline in it.\<close>

record PipelineStack =
  stack :: Stack
  pipeline :: Pipeline

subsection \<open>The library calls\<close>

definition newConstruct :: "string \<Rightarrow> Stack \<Rightarrow> error + Stack" where
  "newConstruct cid scope =
     (if cid \<in> set (children scope) then Inl (DuplicateConstruct cid)
      else Inr (scope\<lparr>children := children scope @ [cid]\<rparr>))"

text \<open>
  \<^verbatim>\<open>String.prototype.toLowerCase\<close> on the letters A to Z. The model applies it to
  \<^verbatim>\<open>ENV\<close> in the two bucket names, where any other character is refused by the check
  of the name, lowered or not.
\<close>

definition toLowerCase :: "string \<Rightarrow> string" where
  "toLowerCase s =
     map (\<lambda>c. case map_of (zip ''ABCDEFGHIJKLMNOPQRSTUVWXYZ'' ''abcdefghijklmnopqrstuvwxyz'') c of
                 None \<Rightarrow> c
               | Some l \<Rightarrow> l) s"

text \<open>
  \<^verbatim>\<open>Bucket.validateBucketName\<close>. A name that holds a token is not checked. Otherwise
  the name has 3 to 63 characters, all of them lowercase letters, digits, periods or
  dashes; it starts and ends with a letter or a digit; no period stands next to a period
  or a dash; and the name does not look like an IP address.
\<close>

fun holdsToken :: "string \<Rightarrow> bool" where
  "holdsToken [] = False"
| "holdsToken (c # cs) = (take 8 (c # cs) = ''${Token['' \<or> holdsToken cs)"

fun periodNextToSymbol :: "string \<Rightarrow> bool" where
  "periodNextToSymbol (a # b # cs) =
     ((a = CHR ''.'' \<and> b = CHR ''-'') \<or> (a = CHR ''-'' \<and> b = CHR ''.'')
      \<or> (a = CHR ''.'' \<and> b = CHR ''.'') \<or> periodNextToSymbol (b # cs))"
| "periodNextToSymbol cs = False"

fun splitAtPeriods :: "string \<Rightarrow> string \<Rightarrow> string list" where
  "splitAtPeriods part [] = [part]"
| "splitAtPeriods part (c # cs) =
     (if c = CHR ''.'' then part # splitAtPeriods [] cs else splitAtPeriods (part @ [c]) cs)"

definition resemblesIpAddress :: "string \<Rightarrow> bool" where
  "resemblesIpAddress name =
     (length (splitAtPeriods [] name) = 4
      \<and> list_all (\<lambda>part. 1 \<le> length part \<and> length part \<le> 3
                      \<and> list_all (\<lambda>c. c \<in> set ''0123456789'') part)
           (splitAtPeriods [] name))"

definition validateBucketName :: "string \<Rightarrow> bool" where
  "validateBucketName bucketName =
     (bucketName = [] \<or> holdsToken bucketName
      \<or> (3 \<le> length bucketName \<and> length bucketName \<le> 63
          \<and> list_all (\<lambda>c. c \<in> set ''abcdefghijklmnopqrstuvwxyz0123456789.-'') bucketName
          \<and> hd bucketName \<in> set ''abcdefghijklmnopqrstuvwxyz0123456789''
          \<and> last bucketName \<in> set ''abcdefghijklmnopqrstuvwxyz0123456789''
          \<and> \<not> periodNextToSymbol bucketName
          \<and> \<not> resemblesIpAddress bucketName))"

text \<open>\<^verbatim>\<open>new s3.Bucket(this, id, {bucketName, ...})\<close>: the construct, then the name.\<close>

definition newBucket :: "string \<Rightarrow> string \<Rightarrow> Stack \<Rightarrow> error + Stack" where
  "newBucket cid bucketName scope =
     andThen (newConstruct cid scope) (\<lambda>scope.
       if validateBucketName bucketName then Inr scope else Inl (InvalidBucketName bucketName))"

text \<open>\<^verbatim>\<open>cdk.Fn.select(index, array)\<close> on a list that is known: absent past its end.\<close>

definition select :: "nat \<Rightarrow> 'a list \<Rightarrow> 'a option" where
  "select index array = (if index < length array then Some (array ! index) else None)"

text \<open>
  \<^verbatim>\<open>vpc.selectSubnets\<close> on the private subnets of the imported VPC, given the zone each
  was imported with: it reads every subnet's zone, and a subnet with no zone (or an empty
  one) throws.
\<close>

definition selectSubnets :: "string option list \<Rightarrow> error + string option list" where
  "selectSubnets zones =
     (if list_all (\<lambda>z. z \<noteq> None \<and> z \<noteq> Some []) zones then Inr zones
      else Inl SubnetWithoutAvailabilityZone)"

text \<open>
  \<^verbatim>\<open>ssm.StringParameter.valueForStringParameter\<close> creates the parameter construct on
  first use and finds it again afterwards.
\<close>

definition valueForStringParameter :: "string \<Rightarrow> Stack \<Rightarrow> string \<times> Stack" where
  "valueForStringParameter parameterName scope =
     (let cid = ''SsmParameterValue:'' @ parameterName @ '':C96584B6-F00A-464E-AD19-53AFF4B05118''
      in (''{{Ref:'' @ cid @ ''}}'',
          if cid \<in> set (children scope) then scope
          else scope\<lparr>children := children scope @ [cid]\<rparr>))"

definition stringValue :: "string \<Rightarrow> string" where
  "stringValue parameterName = ''{{resolve:ssm:'' @ parameterName @ ''}}''"

definition bucketWebsiteUrl :: "string \<Rightarrow> string" where
  "bucketWebsiteUrl bucketId = ''{{GetAtt:'' @ bucketId @ '':WebsiteURL}}''"

text \<open>\<^verbatim>\<open>action.variables.v\<close>: a reference to a variable the action emits when it runs.\<close>

definition variableExpression :: "Action \<Rightarrow> string \<Rightarrow> string" where
  "variableExpression a v = ''#{'' @ actionName a @ ''_NS.'' @ v @ ''}''"

definition pipelineArn :: "Pipeline \<Rightarrow> string" where
  "pipelineArn p = ''arn:{{AWS::Partition}}:codepipeline:{{AWS::Region}}:{{AWS::AccountId}}:''
     @ ''{{Ref:'' @ pipelineId p @ ''}}''"

fun findStageIndex :: "IStage \<Rightarrow> Stage list \<Rightarrow> nat option" where
  "findStageIndex target [] = None"
| "findStageIndex target (s # ss) =
     (if stageName s = target then Some 0
      else map_option Suc (findStageIndex target ss))"

definition calculateInsertIndexFromPlacement ::
  "StagePlacement option \<Rightarrow> Pipeline \<Rightarrow> error + nat" where
  "calculateInsertIndexFromPlacement pl p =
     (case pl of
        None \<Rightarrow> Inr (length (stages p))
      | Some (justAfter target) \<Rightarrow>
          (case findStageIndex target (stages p) of
             None \<Rightarrow> Inl (StageNotInPipeline target)
           | Some i \<Rightarrow> Inr (i + 1)))"

text \<open>\<^verbatim>\<open>_stages.splice(index, 0, stage)\<close>, and the new stage's reference is returned.\<close>

definition addStage :: "StageOptions \<Rightarrow> Pipeline \<Rightarrow> error + (IStage \<times> Pipeline)" where
  "addStage props p =
     (if stageName props \<in> set (map stageName (stages p))
      then Inl (DuplicateStage (stageName props))
      else andThen (calculateInsertIndexFromPlacement (placement props) p) (\<lambda>index.
        Inr (stageName props,
             p\<lparr>stages := take index (stages p)
                  @ [\<lparr>stageName = stageName props, placement = placement props, actions = []\<rparr>]
                  @ drop index (stages p)\<rparr>)))"

fun addActionTo :: "IStage \<Rightarrow> Action \<Rightarrow> Stage list \<Rightarrow> error + Stage list" where
  "addActionTo target a [] = Inl (StageNotInPipeline target)"
| "addActionTo target a (s # ss) =
     (if stageName s = target
      then (if actionName a \<in> set (map actionName (actions s))
            then Inl (DuplicateAction target (actionName a))
            else Inr (s\<lparr>actions := actions s @ [a]\<rparr> # ss))
      else andThen (addActionTo target a ss) (\<lambda>ss'. Inr (s # ss')))"

definition addAction :: "IStage \<Rightarrow> Action \<Rightarrow> Pipeline \<Rightarrow> error + Pipeline" where
  "addAction target a p =
     andThen (addActionTo target a (stages p)) (\<lambda>ss. Inr (p\<lparr>stages := ss\<rparr>))"

subsection \<open>The constructor\<close>

text \<open>The constructor's local constants, in the order of the source.\<close>

definition goldenImage :: string where
  "goldenImage = ''sygna/codebuild_base_image:latest''"

definition reportBucket :: "CodebuildOptions \<Rightarrow> string" where
  "reportBucket environment = ''Bridge-Api-Sit-Report-'' @ ENV environment @ ''-v2''"

definition reportBucketName :: "CodebuildOptions \<Rightarrow> string" where
  "reportBucketName environment =
     ''bridge-api-sit-report-'' @ toLowerCase (ENV environment) @ ''-v2''"

definition codebuildBucket :: "CodebuildOptions \<Rightarrow> string" where
  "codebuildBucket environment = ''Bridge-Api-Codebuild-Bucket-'' @ ENV environment @ ''-v2''"

definition codebuildBucketName :: "CodebuildOptions \<Rightarrow> string" where
  "codebuildBucketName environment =
     ''bridge-api-codebuild-bucket-'' @ toLowerCase (ENV environment) @ ''-v2''"

text \<open>
  The imported VPC has two private subnets; the first is given the first selected zone
  and the second the second.
\<close>

definition vpcAvailabilityZones :: "CodebuildOptions \<Rightarrow> string option list" where
  "vpcAvailabilityZones environment =
     [select 0 (availabilityZones environment), select 1 (availabilityZones environment)]"

definition codePipeline :: "CodebuildOptions \<Rightarrow> Pipeline" where
  "codePipeline environment =
     \<lparr>pipelineId = ''Bridge-Api-Pipeline-'' @ ENV environment @ ''-v2'',
      pipelineName = ''bridge-api-pipeline-'' @ ENV environment @ ''-v2'',
      restartExecutionOnUpdate = True,
      artifactBucket = codebuildBucket environment,
      stages = []\<rparr>"

definition oauthSecret :: SecretValue where
  "oauthSecret = secretsManager ''bridge-githubAccessToken''"

definition slackHookUrl :: "CodebuildOptions \<Rightarrow> string" where
  "slackHookUrl environment = stringValue (''/sit/'' @ ENV environment @ ''/SLACK_HOOK_URL'')"

text \<open>The constructor allocates two artifacts, \<open>sourceOutput\<close> first.\<close>

definition sourceOutput :: Artifact where
  "sourceOutput = fst (newArtifact ''sourceOutput'' [])"

definition sourceAction :: "CodebuildOptions \<Rightarrow> Action" where
  "sourceAction environment =
     GitHubSourceAction
       (''bridge-api-codebuild-action-'' @ ENV environment @ ''-v2'')
       ''CoolBitX-Technology''
       ''sygna-bridge-api''
       oauthSecret
       (branch environment)
       WEBHOOK
       sourceOutput"

definition codeBuildProject :: "CodebuildOptions \<Rightarrow> PipelineProject" where
  "codeBuildProject environment =
     \<lparr>projectName = ''Bridge-Api-Codebuild-'' @ ENV environment @ ''-v2'',
      description = ''Bridge-Api Codebuild - '' @ ENV environment,
      environmentVariables =
        [(''ENV'', \<lparr>varType = None, varValue = ENV environment\<rparr>),
         (''GITHUB_OAUTH_TOKEN'', \<lparr>varType = None, varValue = toString oauthSecret\<rparr>),
         (''TEST_STAGE'', \<lparr>varType = None, varValue = testStage environment\<rparr>),
         (''PROD_STAGE'', \<lparr>varType = None, varValue = productionStage environment\<rparr>),
         (''BRANCH'', \<lparr>varType = None, varValue = branch environment\<rparr>),
         (''S3_REPORT_BUCKET_URL'',
            \<lparr>varType = None, varValue = bucketWebsiteUrl (reportBucket environment)\<rparr>),
         (''SLACK_HOOK_URL'', \<lparr>varType = None, varValue = slackHookUrl environment\<rparr>)],
      buildImage = goldenImage,
      privileged = True,
      buildSpec = ''buildspec.yml''\<rparr>"

definition buildOutput :: Artifact where
  "buildOutput = fst (newArtifact ''buildOutput'' (snd (newArtifact ''sourceOutput'' [])))"

definition buildAction :: "CodebuildOptions \<Rightarrow> Action" where
  "buildAction environment =
     CodeBuildAction ''Build'' sourceOutput [buildOutput] (codeBuildProject environment)"

definition snsArn :: string where
  "snsArn = stringValue ''/bridge/arn/slack-sns''"

definition approvalAction :: "CodebuildOptions \<Rightarrow> Action" where
  "approvalAction environment =
     ManualApprovalAction
       ''ApprovalOrDeny''
       snsArn
       (''https://github.com/CoolBitX-Technology/''
          @ variableExpression (sourceAction environment) ''RepositoryName''
          @ ''/commit/''
          @ variableExpression (sourceAction environment) ''CommitId'')
       ''Please check Github commit before APPROVE!!''"

definition codeBuildDeploy :: "CodebuildOptions \<Rightarrow> PipelineProject" where
  "codeBuildDeploy environment =
     \<lparr>projectName = ''Bridge-Api-Codebuild-Deploy-'' @ ENV environment @ ''-v2'',
      description = ''Bridge Api Codebuild Deploy - '' @ ENV environment,
      environmentVariables =
        [(''ENV'', \<lparr>varType = None, varValue = ENV environment\<rparr>),
         (''GITHUB_OAUTH_TOKEN'', \<lparr>varType = None, varValue = toString oauthSecret\<rparr>),
         (''TEST_STAGE'', \<lparr>varType = None, varValue = testStage environment\<rparr>),
         (''PROD_STAGE'', \<lparr>varType = None, varValue = productionStage environment\<rparr>),
         (''BRANCH'', \<lparr>varType = None, varValue = branch environment\<rparr>),
         (''S3_REPORT_BUCKET_URL'',
            \<lparr>varType = None, varValue = bucketWebsiteUrl (reportBucket environment)\<rparr>),
         (''SLACK_HOOK_URL'', \<lparr>varType = None, varValue = slackHookUrl environment\<rparr>)],
      buildImage = goldenImage,
      privileged = True,
      buildSpec = ''buildDeploy.yml''\<rparr>"

text \<open>The source gives the Deploy action no \<^verbatim>\<open>outputs\<close>: the library reads that as none.\<close>

definition deployAction :: "CodebuildOptions \<Rightarrow> Action" where
  "deployAction environment =
     CodeBuildAction ''Deploy'' buildOutput [] (codeBuildDeploy environment)"

definition codepipelinebuildStar ::
  "CodebuildOptions \<Rightarrow> Pipeline \<Rightarrow> string \<Rightarrow> CfnNotificationRule" where
  "codepipelinebuildStar environment p snsJiraArn =
     \<lparr>ruleId = ''bridge-api-codestar-notification'',
      detailType = ''FULL'',
      eventTypeIds =
        [''codepipeline-pipeline-pipeline-execution-succeeded'',
         ''codepipeline-pipeline-pipeline-execution-failed''],
      ruleName = ''bridge-api-'' @ ENV environment @ ''-codepipeline-notification'',
      resource = pipelineArn p,
      targets = [\<lparr>targetType = ''SNS'', targetAddress = snsJiraArn\<rparr>]\<rparr>"

text \<open>\<^verbatim>\<open>new codestarnotification.CfnNotificationRule(this, id, props)\<close>.\<close>

definition newCfnNotificationRule :: "CfnNotificationRule \<Rightarrow> Stack \<Rightarrow> error + Stack" where
  "newCfnNotificationRule rule this =
     andThen (newConstruct (ruleId rule) this) (\<lambda>this.
       Inr (this\<lparr>notificationRules := notificationRules this @ [rule]\<rparr>))"

text \<open>
  Lines 331 to 353 of the source: the parameter lookup and the notification rule on the
  pipeline.
\<close>

definition attachNotification ::
  "CodebuildOptions \<Rightarrow> Pipeline \<Rightarrow> Stack \<Rightarrow> error + Stack" where
  "attachNotification environment p this =
     (case valueForStringParameter ''/cfstack/arn/JIRA_INTEGRATION'' this of
        (snsJiraArn, this) \<Rightarrow>
          newCfnNotificationRule (codepipelinebuildStar environment p snsJiraArn) this)"

text \<open>
  The constructor, statement by statement. \<open>this\<close> is the scope, \<open>p\<close> the pipeline
  object that \<^verbatim>\<open>addStage\<close> and \<^verbatim>\<open>addAction\<close> change.
\<close>

definition PipelineStack :: "CodebuildOptions \<Rightarrow> error + PipelineStack" where
  "PipelineStack environment =
     andThen (newConstruct ''Bridge-Codebuild-Arn'' \<lparr>children = [], notificationRules = []\<rparr>) (\<lambda>this.
     andThen (newConstruct ''BridgeCodebuildDockerArn'' this) (\<lambda>this.
     andThen (newBucket (reportBucket environment) (reportBucketName environment) this) (\<lambda>this.
     andThen (newBucket (codebuildBucket environment) (codebuildBucketName environment) this) (\<lambda>this.
     andThen (newConstruct (''Bridge-Api-CodeBuild-Role-'' @ ENV environment @ ''-v2'') this) (\<lambda>this.
     andThen (newConstruct (''Bridge-Api-Codebuild-Policy-'' @ ENV environment @ ''-v2'') this) (\<lambda>this.
     andThen (newConstruct (''Bridge-Vpc-'' @ testStage environment @ ''-v2'') this) (\<lambda>this.
     andThen (newConstruct (pipelineId (codePipeline environment)) this) (\<lambda>this.
     andThen (addStage \<lparr>stageName = ''Source'', placement = None\<rparr> (codePipeline environment))
       (\<lambda>(sourceStage, p).
     andThen (addStage \<lparr>stageName = ''Build'', placement = Some (justAfter sourceStage)\<rparr> p)
       (\<lambda>(buildStage, p).
     andThen (if ENV environment \<noteq> ''dev''
              then andThen
                (addStage \<lparr>stageName = ''Approval'', placement = Some (justAfter buildStage)\<rparr> p)
                (\<lambda>(s, p). Inr (Some s, p))
              else Inr (None, p))
       (\<lambda>(approveStage, p).
     andThen (addStage
                \<lparr>stageName = ''Deploy'',
                 placement = Some (justAfter (case approveStage of Some s \<Rightarrow> s | None \<Rightarrow> buildStage))\<rparr>
                p)
       (\<lambda>(deployStage, p).
     andThen (newConstruct (''bridge-api-slack-'' @ ENV environment @ ''-url'') this) (\<lambda>this.
     andThen (addAction sourceStage (sourceAction environment) p) (\<lambda>p.
     andThen (selectSubnets (vpcAvailabilityZones environment)) (\<lambda>subnetSelection.
     andThen (newConstruct (''Bridge-Api-'' @ ENV environment @ ''-v2'') this) (\<lambda>this.
     andThen (addAction buildStage (buildAction environment) p) (\<lambda>p.
     andThen (if ENV environment \<noteq> ''dev''
              then andThen (newConstruct ''bridge-arn-slackSNS'' this) (\<lambda>this.
                   andThen (newConstruct (''Bridge-ApprovalSNS-'' @ ENV environment @ ''-v2'') this) (\<lambda>this.
                   andThen (case approveStage of
                              Some s \<Rightarrow> addAction s (approvalAction environment) p
                            | None \<Rightarrow> Inr p)
                     (\<lambda>p. Inr (this, p))))
              else Inr (this, p))
       (\<lambda>(this, p).
     andThen (newConstruct (''Bridge-Api-Codebuild-Deploy-'' @ ENV environment @ ''-v2'') this) (\<lambda>this.
     andThen (addAction deployStage (deployAction environment) p) (\<lambda>p.
     andThen (attachNotification environment p this) (\<lambda>this.
     Inr \<lparr>stack = this, pipeline = p\<rparr>)))))))))))))))))))))"

subsection \<open>Reading a constructed stack\<close>

text \<open>
  The descriptor has no production flag. The test the constructor makes, twice (for the
  Approval stage and for the approval action), is \<^verbatim>\<open>environment.ENV !== 'dev'\<close>.
\<close>

definition isProduction :: "CodebuildOptions \<Rightarrow> bool" where
  "isProduction environment = (ENV environment \<noteq> ''dev'')"

definition stageNames :: "Pipeline \<Rightarrow> string list" where
  "stageNames p = map stageName (stages p)"

text \<open>Looking a stage up by name: absent is \<open>None\<close>.\<close>

definition findStage :: "string \<Rightarrow> Pipeline \<Rightarrow> Stage option" where
  "findStage n p = find (\<lambda>s. stageName s = n) (stages p)"

definition actionsOf :: "string \<Rightarrow> Pipeline \<Rightarrow> Action list" where
  "actionsOf n p = (case findStage n p of None \<Rightarrow> [] | Some s \<Rightarrow> actions s)"

definition allActions :: "Pipeline \<Rightarrow> Action list" where
  "allActions p = concat (map actions (stages p))"

text \<open>The name of the stage that runs right before the named one.\<close>

fun precedingStage :: "string \<Rightarrow> Stage list \<Rightarrow> string option" where
  "precedingStage n (s # t # ss) =
     (if stageName t = n then Some (stageName s) else precedingStage n (t # ss))"
| "precedingStage n ss = None"

fun isManualApproval :: "Action \<Rightarrow> bool" where
  "isManualApproval (ManualApprovalAction n topic link info) = True"
| "isManualApproval a = False"

text \<open>
  The names in a pipeline: every stage's name with the names of its actions. No artifact
  is among them.
\<close>

definition stageActionNames :: "Pipeline \<Rightarrow> (string \<times> string list) list" where
  "stageActionNames p = map (\<lambda>s. (stageName s, map actionName (actions s))) (stages p)"

text \<open>The actions of a pipeline that produce a given artifact.\<close>

definition producers :: "Artifact \<Rightarrow> Pipeline \<Rightarrow> Action list" where
  "producers art p = filter (\<lambda>a. art \<in> set (actionOutputs a)) (allActions p)"

text \<open>
  Every input of every action is an output of an action of an earlier stage: \<open>avail\<close>
  holds what the stages passed so far produce.
\<close>

fun inputsProducedEarlier :: "Artifact list \<Rightarrow> Stage list \<Rightarrow> bool" where
  "inputsProducedEarlier avail [] = True"
| "inputsProducedEarlier avail (s # ss) =
     (list_all (\<lambda>a. list_all (\<lambda>i. i \<in> set avail) (actionInputs a)) (actions s)
      \<and> inputsProducedEarlier (avail @ concat (map actionOutputs (actions s))) ss)"

text \<open>Two descriptors to run the constructor on: the low tier and a production tier.\<close>

definition devEnvironment :: CodebuildOptions where
  "devEnvironment =
     \<lparr>ENV = ''dev'', testStage = ''sit'', productionStage = ''prod'', branch = ''develop'',
      vpcId = ''vpc-0'', availabilityZones = [''a'', ''b''],
      publicSubnetIds = [''pub-0'', ''pub-1''], privateSubnetIds = [''prv-0'', ''prv-1''],
      privateSubnetRouteTableIds = [''rt-0'', ''rt-1''],
      publicSubnetRouteTableIds = [''rt-2'', ''rt-3'']\<rparr>"

definition prodEnvironment :: CodebuildOptions where
  "prodEnvironment = devEnvironment\<lparr>ENV := ''prod'', branch := ''main''\<rparr>"

text \<open>A pipeline with the stages Source and Build and no action yet.\<close>

definition emptyStages :: Pipeline where
  "emptyStages =
     (codePipeline devEnvironment)
       \<lparr>stages :=
          [\<lparr>stageName = ''Source'', placement = None, actions = []\<rparr>,
           \<lparr>stageName = ''Build'', placement = Some (justAfter ''Source''), actions = []\<rparr>]\<rparr>"

section \<open>What the constructor builds\<close>

subsection \<open>Construct ids never collide\<close>

lemma longer_neq: "length a \<noteq> length b \<Longrightarrow> a \<noteq> b"
  by auto

lemma prefixed_neq [simp]: "e @ s \<noteq> c # t @ e @ s" "c # t @ e @ s \<noteq> e @ s"
  by (rule longer_neq, simp)+

lemmas constructor_defs =
  PipelineStack_def newConstruct_def newBucket_def addStage_def addAction_def
  calculateInsertIndexFromPlacement_def codePipeline_def reportBucket_def
  codebuildBucket_def attachNotification_def valueForStringParameter_def
  newCfnNotificationRule_def codepipelinebuildStar_def

subsection \<open>Where the constructor throws\<close>

lemma PipelineStack_report_bucket_invalid:
  assumes "\<not> validateBucketName (reportBucketName environment)"
  shows "PipelineStack environment = Inl (InvalidBucketName (reportBucketName environment))"
  using assms by (simp add: constructor_defs)

lemma PipelineStack_codebuild_bucket_invalid:
  assumes "validateBucketName (reportBucketName environment)"
    and "\<not> validateBucketName (codebuildBucketName environment)"
  shows "PipelineStack environment = Inl (InvalidBucketName (codebuildBucketName environment))"
  using assms by (simp add: constructor_defs)

lemma PipelineStack_no_zone:
  assumes "validateBucketName (reportBucketName environment)"
    and "validateBucketName (codebuildBucketName environment)"
    and "selectSubnets (vpcAvailabilityZones environment) = Inl e"
  shows "PipelineStack environment = Inl e"
  using assms by (simp add: constructor_defs)

lemma PipelineStack_checks:
  assumes "PipelineStack environment = Inr r"
  shows "validateBucketName (reportBucketName environment)"
    and "validateBucketName (codebuildBucketName environment)"
    and "\<exists>zones. selectSubnets (vpcAvailabilityZones environment) = Inr zones"
proof -
  show 1: "validateBucketName (reportBucketName environment)"
    using assms PipelineStack_report_bucket_invalid [of environment] by auto
  show 2: "validateBucketName (codebuildBucketName environment)"
    using assms 1 PipelineStack_codebuild_bucket_invalid [of environment] by auto
  show "\<exists>zones. selectSubnets (vpcAvailabilityZones environment) = Inr zones"
    using assms 1 2 PipelineStack_no_zone [of environment]
    by (cases "selectSubnets (vpcAvailabilityZones environment)") auto
qed

text \<open>An underscore in \<^verbatim>\<open>ENV\<close>, an \<^verbatim>\<open>ENV\<close> of 33 characters, an empty list of zones.\<close>

lemma PipelineStack_underscore:
  "PipelineStack (prodEnvironment\<lparr>ENV := ''prod_1''\<rparr>)
     = Inl (InvalidBucketName ''bridge-api-sit-report-prod_1-v2'')"
proof -
  have "\<not> validateBucketName (reportBucketName (prodEnvironment\<lparr>ENV := ''prod_1''\<rparr>))"
    by (simp add: validateBucketName_def reportBucketName_def toLowerCase_def)
  from PipelineStack_report_bucket_invalid [OF this] show ?thesis
    by (simp add: reportBucketName_def toLowerCase_def)
qed

lemma PipelineStack_long_name:
  "PipelineStack (prodEnvironment\<lparr>ENV := ''aaaaaaaaaabbbbbbbbbbccccccccccddd''\<rparr>)
     = Inl (InvalidBucketName
         ''bridge-api-codebuild-bucket-aaaaaaaaaabbbbbbbbbbccccccccccddd-v2'')"
proof -
  have 1: "validateBucketName
      (reportBucketName (prodEnvironment\<lparr>ENV := ''aaaaaaaaaabbbbbbbbbbccccccccccddd''\<rparr>))"
    by (simp add: validateBucketName_def reportBucketName_def toLowerCase_def
        resemblesIpAddress_def)
  have 2: "\<not> validateBucketName
      (codebuildBucketName (prodEnvironment\<lparr>ENV := ''aaaaaaaaaabbbbbbbbbbccccccccccddd''\<rparr>))"
    by (simp add: validateBucketName_def codebuildBucketName_def toLowerCase_def)
  from PipelineStack_codebuild_bucket_invalid [OF 1 2] show ?thesis
    by (simp add: codebuildBucketName_def toLowerCase_def)
qed

lemma devEnvironment_ENV [simp]: "ENV devEnvironment = ''dev''"
  by (simp add: devEnvironment_def)

lemma prodEnvironment_ENV [simp]: "ENV prodEnvironment = ''prod''"
  by (simp add: prodEnvironment_def)

lemma devEnvironment_valid:
  "validateBucketName (reportBucketName devEnvironment)"
  "validateBucketName (codebuildBucketName devEnvironment)"
  "selectSubnets (vpcAvailabilityZones devEnvironment) = Inr [Some ''a'', Some ''b'']"
  by (simp_all add: validateBucketName_def reportBucketName_def codebuildBucketName_def
      toLowerCase_def resemblesIpAddress_def selectSubnets_def vpcAvailabilityZones_def
      select_def devEnvironment_def)

lemma prodEnvironment_valid:
  "validateBucketName (reportBucketName prodEnvironment)"
  "validateBucketName (codebuildBucketName prodEnvironment)"
  "selectSubnets (vpcAvailabilityZones prodEnvironment) = Inr [Some ''a'', Some ''b'']"
  by (simp_all add: validateBucketName_def reportBucketName_def codebuildBucketName_def
      toLowerCase_def resemblesIpAddress_def selectSubnets_def vpcAvailabilityZones_def
      select_def prodEnvironment_def devEnvironment_def)

lemma PipelineStack_no_zones:
  "PipelineStack (devEnvironment\<lparr>availabilityZones := []\<rparr>)
     = Inl SubnetWithoutAvailabilityZone"
proof -
  have "reportBucketName (devEnvironment\<lparr>availabilityZones := []\<rparr>)
      = reportBucketName devEnvironment"
    "codebuildBucketName (devEnvironment\<lparr>availabilityZones := []\<rparr>)
      = codebuildBucketName devEnvironment"
    by (simp_all add: reportBucketName_def codebuildBucketName_def)
  with devEnvironment_valid have
    "validateBucketName (reportBucketName (devEnvironment\<lparr>availabilityZones := []\<rparr>))"
    "validateBucketName (codebuildBucketName (devEnvironment\<lparr>availabilityZones := []\<rparr>))"
    by simp_all
  moreover have "selectSubnets (vpcAvailabilityZones (devEnvironment\<lparr>availabilityZones := []\<rparr>))
      = Inl SubnetWithoutAvailabilityZone"
    by (simp add: selectSubnets_def vpcAvailabilityZones_def select_def)
  ultimately show ?thesis by (rule PipelineStack_no_zone)
qed

subsection \<open>The stack the constructor returns\<close>

lemma PipelineStack_dev:
  assumes "ENV environment = ''dev''"
    and "validateBucketName (reportBucketName environment)"
    and "validateBucketName (codebuildBucketName environment)"
    and "selectSubnets (vpcAvailabilityZones environment) = Inr zones"
  shows "\<exists>r. PipelineStack environment = Inr r
    \<and> stages (pipeline r) =
       [\<lparr>stageName = ''Source'', placement = None, actions = [sourceAction environment]\<rparr>,
        \<lparr>stageName = ''Build'', placement = Some (justAfter ''Source''),
           actions = [buildAction environment]\<rparr>,
        \<lparr>stageName = ''Deploy'', placement = Some (justAfter ''Build''),
           actions = [deployAction environment]\<rparr>]
    \<and> notificationRules (stack r) =
       [codepipelinebuildStar environment (pipeline r)
          ''{{Ref:SsmParameterValue:/cfstack/arn/JIRA_INTEGRATION:C96584B6-F00A-464E-AD19-53AFF4B05118}}'']
    \<and> ''bridge-api-codestar-notification'' \<in> set (children (stack r))"
  using assms by (simp add: constructor_defs)

lemma PipelineStack_not_dev:
  assumes "ENV environment \<noteq> ''dev''"
    and "validateBucketName (reportBucketName environment)"
    and "validateBucketName (codebuildBucketName environment)"
    and "selectSubnets (vpcAvailabilityZones environment) = Inr zones"
  shows "\<exists>r. PipelineStack environment = Inr r
    \<and> stages (pipeline r) =
       [\<lparr>stageName = ''Source'', placement = None, actions = [sourceAction environment]\<rparr>,
        \<lparr>stageName = ''Build'', placement = Some (justAfter ''Source''),
           actions = [buildAction environment]\<rparr>,
        \<lparr>stageName = ''Approval'', placement = Some (justAfter ''Build''),
           actions = [approvalAction environment]\<rparr>,
        \<lparr>stageName = ''Deploy'', placement = Some (justAfter ''Approval''),
           actions = [deployAction environment]\<rparr>]
    \<and> notificationRules (stack r) =
       [codepipelinebuildStar environment (pipeline r)
          ''{{Ref:SsmParameterValue:/cfstack/arn/JIRA_INTEGRATION:C96584B6-F00A-464E-AD19-53AFF4B05118}}'']
    \<and> ''bridge-api-codestar-notification'' \<in> set (children (stack r))"
  using assms by (simp add: constructor_defs)

text \<open>A stack that the constructor returned is one of these two.\<close>

lemma PipelineStack_cases [consumes 1, case_names dev not_dev]:
  assumes "PipelineStack environment = Inr r"
  obtains
      "ENV environment = ''dev''"
      "stages (pipeline r) =
       [\<lparr>stageName = ''Source'', placement = None, actions = [sourceAction environment]\<rparr>,
        \<lparr>stageName = ''Build'', placement = Some (justAfter ''Source''),
           actions = [buildAction environment]\<rparr>,
        \<lparr>stageName = ''Deploy'', placement = Some (justAfter ''Build''),
           actions = [deployAction environment]\<rparr>]"
      "notificationRules (stack r) =
       [codepipelinebuildStar environment (pipeline r)
          ''{{Ref:SsmParameterValue:/cfstack/arn/JIRA_INTEGRATION:C96584B6-F00A-464E-AD19-53AFF4B05118}}'']"
      "''bridge-api-codestar-notification'' \<in> set (children (stack r))"
  | "ENV environment \<noteq> ''dev''"
      "stages (pipeline r) =
       [\<lparr>stageName = ''Source'', placement = None, actions = [sourceAction environment]\<rparr>,
        \<lparr>stageName = ''Build'', placement = Some (justAfter ''Source''),
           actions = [buildAction environment]\<rparr>,
        \<lparr>stageName = ''Approval'', placement = Some (justAfter ''Build''),
           actions = [approvalAction environment]\<rparr>,
        \<lparr>stageName = ''Deploy'', placement = Some (justAfter ''Approval''),
           actions = [deployAction environment]\<rparr>]"
      "notificationRules (stack r) =
       [codepipelinebuildStar environment (pipeline r)
          ''{{Ref:SsmParameterValue:/cfstack/arn/JIRA_INTEGRATION:C96584B6-F00A-464E-AD19-53AFF4B05118}}'']"
      "''bridge-api-codestar-notification'' \<in> set (children (stack r))"
proof -
  from PipelineStack_checks [OF assms] obtain zones where
    v: "validateBucketName (reportBucketName environment)"
      "validateBucketName (codebuildBucketName environment)"
      "selectSubnets (vpcAvailabilityZones environment) = Inr zones"
    by blast
  show ?thesis
  proof (cases "ENV environment = ''dev''")
    case True
    from PipelineStack_dev [OF True v] assms that(1) [OF True] show ?thesis by auto
  next
    case False
    from PipelineStack_not_dev [OF False v] assms that(2) [OF False] show ?thesis by auto
  qed
qed

text \<open>The constructor returns on the two descriptors.\<close>

lemma devEnvironment_constructed: "\<exists>r. PipelineStack devEnvironment = Inr r"
  using PipelineStack_dev [OF devEnvironment_ENV devEnvironment_valid] by blast

lemma prodEnvironment_constructed: "\<exists>r. PipelineStack prodEnvironment = Inr r"
proof -
  have "ENV prodEnvironment \<noteq> ''dev''" by simp
  from PipelineStack_not_dev [OF this prodEnvironment_valid] show ?thesis by blast
qed

subsection \<open>Attaching an action, attaching the notification again\<close>

lemma addActionTo_appends:
  assumes "find (\<lambda>s. stageName s = target) ss = Some s"
    and "actionName a \<notin> set (map actionName (actions s))"
  shows "\<exists>ss'. addActionTo target a ss = Inr ss'
    \<and> find (\<lambda>s. stageName s = target) ss' = Some (s\<lparr>actions := actions s @ [a]\<rparr>)"
  using assms
proof (induction ss)
  case Nil
  then show ?case by simp
next
  case (Cons x xs)
  show ?case
  proof (cases "stageName x = target")
    case True
    with Cons.prems show ?thesis by auto
  next
    case False
    with Cons.prems have "find (\<lambda>s. stageName s = target) xs = Some s" by simp
    from Cons.IH [OF this Cons.prems(2)] obtain ss' where
      "addActionTo target a xs = Inr ss'"
      "find (\<lambda>s. stageName s = target) ss' = Some (s\<lparr>actions := actions s @ [a]\<rparr>)"
      by blast
    with False show ?thesis by simp
  qed
qed

lemma isl_andThen_Inr: "isl (andThen m (\<lambda>x. Inr (f x))) = isl m"
  by (cases m) simp_all

lemma addActionTo_names_only:
  assumes "actionName a = actionName a'"
    and "map (\<lambda>s. (stageName s, map actionName (actions s))) ss
       = map (\<lambda>s. (stageName s, map actionName (actions s))) ss'"
  shows "isl (addActionTo target a ss) = isl (addActionTo target a' ss')"
  using assms(2)
proof (induction ss arbitrary: ss')
  case Nil
  then show ?case by simp
next
  case (Cons x xs)
  then obtain y ys where ss': "ss' = y # ys" by auto
  with Cons.prems have xy: "stageName x = stageName y"
    "map actionName (actions x) = map actionName (actions y)"
    and rest: "map (\<lambda>s. (stageName s, map actionName (actions s))) xs
       = map (\<lambda>s. (stageName s, map actionName (actions s))) ys"
    by simp_all
  from Cons.IH [OF rest] have "isl (addActionTo target a xs) = isl (addActionTo target a' ys)" .
  with xy ss' assms(1) show ?case
    by (simp add: isl_andThen_Inr)
qed

lemma addAction_names_only:
  assumes "actionName a = actionName a'"
    and "stageActionNames p = stageActionNames p'"
  shows "isl (addAction target a p) = isl (addAction target a' p')"
  using addActionTo_names_only [OF assms(1), of "stages p" "stages p'" target] assms(2)
  by (simp add: addAction_def stageActionNames_def isl_andThen_Inr)

lemma attachNotification_again:
  assumes "''bridge-api-codestar-notification'' \<in> set (children this)"
  shows "attachNotification environment p this
    = Inl (DuplicateConstruct ''bridge-api-codestar-notification'')"
  using assms
  by (simp add: attachNotification_def valueForStringParameter_def newCfnNotificationRule_def
      newConstruct_def codepipelinebuildStar_def Let_def)

lemma sourceOutput_object [simp]: "sourceOutput = Artifact 0 ''sourceOutput''"
  by (simp add: sourceOutput_def newArtifact_def)

lemma buildOutput_object [simp]: "buildOutput = Artifact 1 ''buildOutput''"
  by (simp add: buildOutput_def newArtifact_def)

section \<open>The claims\<close>

text \<open>
  C1. Whenever the constructor returns a stack: if the descriptor is of a production
  tier (its \<^verbatim>\<open>ENV\<close> is not \<^verbatim>\<open>'dev'\<close>) the pipeline's stages are, in order,
  Source, Build, Approval, Deploy; if it is of the low tier they are Source, Build,
  Deploy; and the Approval stage is there if and only if the tier is a production tier.
\<close>

theorem stage_sequence:
  assumes "PipelineStack environment = Inr r"
  shows "(isProduction environment \<longrightarrow>
            stageNames (pipeline r) = [''Source'', ''Build'', ''Approval'', ''Deploy''])
       \<and> (\<not> isProduction environment \<longrightarrow>
            stageNames (pipeline r) = [''Source'', ''Build'', ''Deploy''])
       \<and> (''Approval'' \<in> set (stageNames (pipeline r))) = isProduction environment"
  using assms
proof (cases rule: PipelineStack_cases)
  case dev
  then show ?thesis by (simp add: isProduction_def stageNames_def)
next
  case not_dev
  then show ?thesis by (simp add: isProduction_def stageNames_def)
qed

text \<open>
  The constructor returns on the production descriptor and on the low-tier descriptor,
  with four stages and with three.
\<close>

theorem stage_sequence_witness:
  "(\<exists>r. PipelineStack prodEnvironment = Inr r
      \<and> isProduction prodEnvironment
      \<and> stageNames (pipeline r) = [''Source'', ''Build'', ''Approval'', ''Deploy''])
   \<and> (\<exists>r. PipelineStack devEnvironment = Inr r
      \<and> \<not> isProduction devEnvironment
      \<and> stageNames (pipeline r) = [''Source'', ''Build'', ''Deploy''])"
proof -
  have p: "isProduction prodEnvironment"
    by (simp add: isProduction_def)
  have d: "\<not> isProduction devEnvironment"
    by (simp add: isProduction_def)
  from prodEnvironment_constructed obtain rp where rp: "PipelineStack prodEnvironment = Inr rp" ..
  from devEnvironment_constructed obtain rd where rd: "PipelineStack devEnvironment = Inr rd" ..
  from stage_sequence [OF rp] p have "stageNames (pipeline rp) = [''Source'', ''Build'', ''Approval'', ''Deploy'']"
    by blast
  moreover from stage_sequence [OF rd] d have "stageNames (pipeline rd) = [''Source'', ''Build'', ''Deploy'']"
    by blast
  ultimately show ?thesis using p d rp rd by blast
qed

text \<open>
  C2. In every pipeline the constructor returns, the Deploy stage was placed just after
  the Approval stage when the pipeline has one, and just after the Build stage
  otherwise, never after Source; and the stage that comes right before Deploy in the
  finished order is that same stage.
\<close>

theorem deploy_placement:
  assumes "PipelineStack environment = Inr r"
  shows "\<exists>d. findStage ''Deploy'' (pipeline r) = Some d
     \<and> placement d =
         Some (justAfter (if ''Approval'' \<in> set (stageNames (pipeline r))
                          then ''Approval'' else ''Build''))
     \<and> placement d \<noteq> Some (justAfter ''Source'')
     \<and> precedingStage ''Deploy'' (stages (pipeline r)) =
         Some (if ''Approval'' \<in> set (stageNames (pipeline r)) then ''Approval'' else ''Build'')"
  using assms
proof (cases rule: PipelineStack_cases)
  case dev
  then show ?thesis by (simp add: findStage_def stageNames_def)
next
  case not_dev
  then show ?thesis by (simp add: findStage_def stageNames_def)
qed

text \<open>On the production descriptor Deploy follows Approval; on the low tier, Build.\<close>

theorem deploy_placement_witness:
  "(\<exists>r d. PipelineStack prodEnvironment = Inr r
      \<and> ''Approval'' \<in> set (stageNames (pipeline r))
      \<and> findStage ''Deploy'' (pipeline r) = Some d
      \<and> placement d = Some (justAfter ''Approval'')
      \<and> precedingStage ''Deploy'' (stages (pipeline r)) = Some ''Approval'')
   \<and> (\<exists>r d. PipelineStack devEnvironment = Inr r
      \<and> ''Approval'' \<notin> set (stageNames (pipeline r))
      \<and> findStage ''Deploy'' (pipeline r) = Some d
      \<and> placement d = Some (justAfter ''Build'')
      \<and> precedingStage ''Deploy'' (stages (pipeline r)) = Some ''Build'')"
proof -
  from prodEnvironment_constructed obtain rp where rp: "PipelineStack prodEnvironment = Inr rp" ..
  from devEnvironment_constructed obtain rd where rd: "PipelineStack devEnvironment = Inr rd" ..
  have ap: "''Approval'' \<in> set (stageNames (pipeline rp))"
    using rp by (cases rule: PipelineStack_cases) (simp_all add: stageNames_def)
  have ad: "''Approval'' \<notin> set (stageNames (pipeline rd))"
    using rd by (cases rule: PipelineStack_cases) (simp_all add: stageNames_def)
  from deploy_placement [OF rp] ap rp have
    "\<exists>d. PipelineStack prodEnvironment = Inr rp
      \<and> ''Approval'' \<in> set (stageNames (pipeline rp))
      \<and> findStage ''Deploy'' (pipeline rp) = Some d
      \<and> placement d = Some (justAfter ''Approval'')
      \<and> precedingStage ''Deploy'' (stages (pipeline rp)) = Some ''Approval''"
    by auto
  moreover from deploy_placement [OF rd] ad rd have
    "\<exists>d. PipelineStack devEnvironment = Inr rd
      \<and> ''Approval'' \<notin> set (stageNames (pipeline rd))
      \<and> findStage ''Deploy'' (pipeline rd) = Some d
      \<and> placement d = Some (justAfter ''Build'')
      \<and> precedingStage ''Deploy'' (stages (pipeline rd)) = Some ''Build''"
    by auto
  ultimately show ?thesis by blast
qed

text \<open>
  C3. In every pipeline the constructor returns, the Source stage holds one action with
  the single output \<open>sourceOutput\<close>; the Build stage holds one action, which consumes
  exactly that output and produces exactly one artifact, \<open>buildOutput\<close>; the Deploy
  stage holds one action, the Deploy action, which consumes exactly the Build output and
  produces nothing; and the last stage of the pipeline is the Deploy stage, so the
  pipeline ends in the Deploy action and in no other.
\<close>

theorem artifact_flow:
  assumes "PipelineStack environment = Inr r"
  shows "\<exists>src bld dpl.
       actionsOf ''Source'' (pipeline r) = [src]
     \<and> actionsOf ''Build'' (pipeline r) = [bld]
     \<and> actionsOf ''Deploy'' (pipeline r) = [dpl]
     \<and> actionOutputs src = [sourceOutput]
     \<and> actionInputs bld = actionOutputs src
     \<and> actionOutputs bld = [buildOutput]
     \<and> actionInputs dpl = actionOutputs bld
     \<and> actionOutputs dpl = []
     \<and> dpl = deployAction environment
     \<and> stageName (last (stages (pipeline r))) = ''Deploy''
     \<and> actions (last (stages (pipeline r))) = [dpl]"
  using assms
proof (cases rule: PipelineStack_cases)
  case dev
  then show ?thesis
    by (intro exI [of _ "sourceAction environment"]
          exI [of _ "buildAction environment"] exI [of _ "deployAction environment"])
       (simp add: actionsOf_def findStage_def sourceAction_def buildAction_def deployAction_def)
next
  case not_dev
  then show ?thesis
    by (intro exI [of _ "sourceAction environment"]
          exI [of _ "buildAction environment"] exI [of _ "deployAction environment"])
       (simp add: actionsOf_def findStage_def sourceAction_def buildAction_def deployAction_def)
qed

text \<open>The pipeline of the production descriptor is one.\<close>

theorem artifact_flow_witness:
  "\<exists>r src bld dpl. PipelineStack prodEnvironment = Inr r
     \<and> actionsOf ''Source'' (pipeline r) = [src]
     \<and> actionsOf ''Build'' (pipeline r) = [bld]
     \<and> actionsOf ''Deploy'' (pipeline r) = [dpl]
     \<and> actionOutputs src = [sourceOutput]
     \<and> actionInputs bld = actionOutputs src
     \<and> actionOutputs bld = [buildOutput]
     \<and> actionInputs dpl = actionOutputs bld
     \<and> actionOutputs dpl = []
     \<and> dpl = deployAction prodEnvironment
     \<and> stageName (last (stages (pipeline r))) = ''Deploy''
     \<and> actions (last (stages (pipeline r))) = [dpl]"
proof -
  from prodEnvironment_constructed obtain r where r: "PipelineStack prodEnvironment = Inr r" ..
  from artifact_flow [OF r] r show ?thesis by blast
qed

text \<open>
  C4. The claim asks that the OAuth credential never reach an environment-variable set
  in plaintext. On the low-tier descriptor (and on every other) both CodeBuild projects
  carry \<^verbatim>\<open>GITHUB_OAUTH_TOKEN\<close> with no declared type, hence as a \<^verbatim>\<open>PLAINTEXT\<close>
  variable, whose value is the string form of the secret.
\<close>

theorem oauth_token_plaintext_variable:
  "\<exists>r bld dpl. PipelineStack devEnvironment = Inr r
     \<and> actionsOf ''Build'' (pipeline r) = [bld]
     \<and> actionsOf ''Deploy'' (pipeline r) = [dpl]
     \<and> map_of (environmentVariables (project bld)) ''GITHUB_OAUTH_TOKEN''
         = Some \<lparr>varType = None, varValue = toString oauthSecret\<rparr>
     \<and> map_of (environmentVariables (project dpl)) ''GITHUB_OAUTH_TOKEN''
         = Some \<lparr>varType = None, varValue = toString oauthSecret\<rparr>
     \<and> effectiveType \<lparr>varType = None, varValue = toString oauthSecret\<rparr> = PLAINTEXT"
proof -
  from devEnvironment_constructed obtain r where r: "PipelineStack devEnvironment = Inr r" ..
  from r show ?thesis
  proof (cases rule: PipelineStack_cases)
    case dev
    with r show ?thesis
      by (intro exI [of _ r] exI [of _ "buildAction devEnvironment"]
            exI [of _ "deployAction devEnvironment"])
         (simp add: actionsOf_def findStage_def buildAction_def deployAction_def
            codeBuildProject_def codeBuildDeploy_def effectiveType_def)
  next
    case not_dev
    then show ?thesis by simp
  qed
qed

text \<open>
  C5, as amended. Attaching an action to a stage does not look at the action's kind: if
  the pipeline has the stage and the stage has no action of that name, the action is
  attached, at the end of the stage's actions.
\<close>

theorem addAction_any_kind:
  assumes "findStage target p = Some s"
    and "actionName a \<notin> set (map actionName (actions s))"
  shows "\<exists>p'. addAction target a p = Inr p' \<and> actionsOf target p' = actions s @ [a]"
proof -
  from assms have "find (\<lambda>s. stageName s = target) (stages p) = Some s"
    by (simp add: findStage_def)
  from addActionTo_appends [OF this assms(2)] obtain ss' where
    "addActionTo target a (stages p) = Inr ss'"
    "find (\<lambda>s. stageName s = target) ss' = Some (s\<lparr>actions := actions s @ [a]\<rparr>)"
    by blast
  then show ?thesis
    by (simp add: addAction_def actionsOf_def findStage_def)
qed

text \<open>The Build stage without actions and the Deploy action meet both hypotheses.\<close>

theorem addAction_any_kind_witness:
  "findStage ''Build'' emptyStages
     = Some \<lparr>stageName = ''Build'', placement = Some (justAfter ''Source''), actions = []\<rparr>
   \<and> (\<exists>p'. addAction ''Build'' (deployAction devEnvironment) emptyStages = Inr p'
         \<and> actionsOf ''Build'' p' = [deployAction devEnvironment])"
proof -
  have f: "findStage ''Build'' emptyStages
     = Some \<lparr>stageName = ''Build'', placement = Some (justAfter ''Source''), actions = []\<rparr>"
    by (simp add: findStage_def emptyStages_def)
  have n: "actionName (deployAction devEnvironment) \<notin> set (map actionName (actions
      \<lparr>stageName = ''Build'', placement = Some (justAfter ''Source''), actions = []\<rparr>))"
    by simp
  from addAction_any_kind [OF f n] f show ?thesis by simp
qed

text \<open>
  C5 as stated fails: the Deploy action, attached to the Build stage, is accepted. No
  error is raised, and the Build stage then holds the Deploy action.
\<close>

theorem deploy_action_on_build_stage_accepted:
  "addAction ''Build'' (deployAction devEnvironment) emptyStages =
     Inr (emptyStages\<lparr>stages :=
       [\<lparr>stageName = ''Source'', placement = None, actions = []\<rparr>,
        \<lparr>stageName = ''Build'', placement = Some (justAfter ''Source''),
           actions = [deployAction devEnvironment]\<rparr>]\<rparr>)"
  by (simp add: addAction_def emptyStages_def)

text \<open>
  C6, as amended. The constructor keeps no artifact registry. Creating an artifact
  twice under one name gives two different objects; the constructor creates
  \<open>sourceOutput\<close> and \<open>buildOutput\<close> once each, as two objects. Attaching an action
  checks no artifact: whether it succeeds depends only on the names of the action, of
  the stages and of the stages' actions. In every pipeline the constructor returns,
  \<open>sourceOutput\<close> has exactly one producer, the source action, and \<open>buildOutput\<close> has
  exactly one producer, the Build action; and every artifact an action consumes is
  produced by an action of an earlier stage.
\<close>

theorem artifacts_wired_in_order:
  assumes "PipelineStack environment = Inr r"
    and "actionName a = actionName a'"
    and "stageActionNames p = stageActionNames p'"
  shows "producers sourceOutput (pipeline r) = [sourceAction environment]
     \<and> producers buildOutput (pipeline r) = [buildAction environment]
     \<and> inputsProducedEarlier [] (stages (pipeline r))
     \<and> objectId sourceOutput \<noteq> objectId buildOutput
     \<and> fst (newArtifact name (snd (newArtifact name allocated)))
         \<noteq> fst (newArtifact name allocated)
     \<and> isl (addAction target a p) = isl (addAction target a' p')"
proof -
  have "producers sourceOutput (pipeline r) = [sourceAction environment]
     \<and> producers buildOutput (pipeline r) = [buildAction environment]
     \<and> inputsProducedEarlier [] (stages (pipeline r))"
    using assms(1)
  proof (cases rule: PipelineStack_cases)
    case dev
    then show ?thesis
      by (simp add: producers_def allActions_def sourceAction_def buildAction_def
          deployAction_def)
  next
    case not_dev
    then show ?thesis
      by (simp add: producers_def allActions_def sourceAction_def buildAction_def
          deployAction_def approvalAction_def)
  qed
  moreover have "objectId sourceOutput \<noteq> objectId buildOutput"
    by simp
  moreover have "fst (newArtifact name (snd (newArtifact name allocated)))
      \<noteq> fst (newArtifact name allocated)"
    by (simp add: newArtifact_def)
  moreover note addAction_names_only [OF assms(2) assms(3), of target]
  ultimately show ?thesis by blast
qed

text \<open>
  The production descriptor's pipeline; and the Build action against an action of the
  same name that consumes and produces other artifacts, in two pipelines with the same
  names.
\<close>

theorem artifacts_wired_in_order_witness:
  "\<exists>r. PipelineStack prodEnvironment = Inr r
     \<and> actionName (buildAction prodEnvironment)
         = actionName (CodeBuildAction ''Build'' buildOutput [sourceOutput]
             (codeBuildDeploy prodEnvironment))
     \<and> stageActionNames emptyStages = stageActionNames (emptyStages\<lparr>pipelineName := ''other''\<rparr>)
     \<and> producers sourceOutput (pipeline r) = [sourceAction prodEnvironment]
     \<and> producers buildOutput (pipeline r) = [buildAction prodEnvironment]
     \<and> inputsProducedEarlier [] (stages (pipeline r))
     \<and> objectId sourceOutput \<noteq> objectId buildOutput
     \<and> fst (newArtifact ''sourceOutput'' (snd (newArtifact ''sourceOutput'' [])))
         \<noteq> fst (newArtifact ''sourceOutput'' [])
     \<and> isl (addAction ''Build'' (buildAction prodEnvironment) emptyStages)
         = isl (addAction ''Build''
             (CodeBuildAction ''Build'' buildOutput [sourceOutput] (codeBuildDeploy prodEnvironment))
             (emptyStages\<lparr>pipelineName := ''other''\<rparr>))"
proof -
  from prodEnvironment_constructed obtain r where r: "PipelineStack prodEnvironment = Inr r" ..
  have n: "actionName (buildAction prodEnvironment)
      = actionName (CodeBuildAction ''Build'' buildOutput [sourceOutput]
          (codeBuildDeploy prodEnvironment))"
    by (simp add: buildAction_def)
  have s: "stageActionNames emptyStages
      = stageActionNames (emptyStages\<lparr>pipelineName := ''other''\<rparr>)"
    by (simp add: stageActionNames_def)
  from artifacts_wired_in_order [OF r n s, of "''sourceOutput''" "[]" "''Build''"] r n s
  show ?thesis by blast
qed

text \<open>
  C6 as stated fails. Attaching the Build action, which consumes \<open>sourceOutput\<close>, to a
  pipeline in which no action produces \<open>sourceOutput\<close> is accepted; so is attaching a
  second action that produces the artifact the Build action already produces; and
  creating the artifact \<open>sourceOutput\<close> a second time does not give the first object
  again.
\<close>

theorem unproduced_input_accepted:
  "producers sourceOutput emptyStages = []
   \<and> actionInputs (buildAction devEnvironment) = [sourceOutput]
   \<and> addAction ''Build'' (buildAction devEnvironment) emptyStages =
       Inr (emptyStages\<lparr>stages :=
         [\<lparr>stageName = ''Source'', placement = None, actions = []\<rparr>,
          \<lparr>stageName = ''Build'', placement = Some (justAfter ''Source''),
             actions = [buildAction devEnvironment]\<rparr>]\<rparr>)
   \<and> actionOutputs
         (CodeBuildAction ''Again'' sourceOutput [buildOutput] (codeBuildProject devEnvironment))
       = actionOutputs (buildAction devEnvironment)
   \<and> andThen (addAction ''Build'' (buildAction devEnvironment) emptyStages)
        (addAction ''Build''
           (CodeBuildAction ''Again'' sourceOutput [buildOutput] (codeBuildProject devEnvironment))) =
       Inr (emptyStages\<lparr>stages :=
         [\<lparr>stageName = ''Source'', placement = None, actions = []\<rparr>,
          \<lparr>stageName = ''Build'', placement = Some (justAfter ''Source''),
             actions = [buildAction devEnvironment,
               CodeBuildAction ''Again'' sourceOutput [buildOutput]
                 (codeBuildProject devEnvironment)]\<rparr>]\<rparr>)
   \<and> fst (newArtifact ''sourceOutput'' (snd (newArtifact ''sourceOutput'' [])))
       \<noteq> fst (newArtifact ''sourceOutput'' [])"
  by (simp add: addAction_def emptyStages_def producers_def allActions_def buildAction_def
      newArtifact_def)

text \<open>
  C7. Every stack the constructor returns has one notification rule. Its events are
  exactly the two pipeline-execution events, succeeded and failed, each listed once; its
  resource is the pipeline itself; and its one target is the SNS topic whose address is
  the value of the parameter \<^verbatim>\<open>/cfstack/arn/JIRA_INTEGRATION\<close>.
\<close>

theorem notification_events:
  assumes "PipelineStack environment = Inr r"
  shows "\<exists>rule. notificationRules (stack r) = [rule]
     \<and> set (eventTypeIds rule) =
          {''codepipeline-pipeline-pipeline-execution-succeeded'',
           ''codepipeline-pipeline-pipeline-execution-failed''}
     \<and> distinct (eventTypeIds rule)
     \<and> resource rule = pipelineArn (pipeline r)
     \<and> targets rule =
          [\<lparr>targetType = ''SNS'',
            targetAddress =
              fst (valueForStringParameter ''/cfstack/arn/JIRA_INTEGRATION'' (stack r))\<rparr>]"
  using assms
proof (cases rule: PipelineStack_cases)
  case dev
  then show ?thesis
    by (simp add: codepipelinebuildStar_def valueForStringParameter_def Let_def)
next
  case not_dev
  then show ?thesis
    by (simp add: codepipelinebuildStar_def valueForStringParameter_def Let_def)
qed

text \<open>The stack of the production descriptor is one.\<close>

theorem notification_events_witness:
  "\<exists>r rule. PipelineStack prodEnvironment = Inr r
     \<and> notificationRules (stack r) = [rule]
     \<and> set (eventTypeIds rule) =
          {''codepipeline-pipeline-pipeline-execution-succeeded'',
           ''codepipeline-pipeline-pipeline-execution-failed''}
     \<and> distinct (eventTypeIds rule)
     \<and> resource rule = pipelineArn (pipeline r)
     \<and> targets rule =
          [\<lparr>targetType = ''SNS'',
            targetAddress =
              ''{{Ref:SsmParameterValue:/cfstack/arn/JIRA_INTEGRATION:C96584B6-F00A-464E-AD19-53AFF4B05118}}''\<rparr>]"
proof -
  from prodEnvironment_constructed obtain r where r: "PipelineStack prodEnvironment = Inr r" ..
  from notification_events [OF r] r show ?thesis
    by (auto simp: valueForStringParameter_def Let_def)
qed

text \<open>
  C8, as amended. The constructor attaches the notification once: every stack it returns
  holds exactly one notification rule. Attaching it again to that stack adds no second
  rule, but it is an error (the construct id is taken), not a no-op.
\<close>

theorem notification_attached_once:
  assumes "PipelineStack environment = Inr r"
  shows "length (notificationRules (stack r)) = 1
     \<and> attachNotification environment (pipeline r) (stack r)
         = Inl (DuplicateConstruct ''bridge-api-codestar-notification'')"
  using assms
proof (cases rule: PipelineStack_cases)
  case dev
  then show ?thesis by (simp add: attachNotification_again)
next
  case not_dev
  then show ?thesis by (simp add: attachNotification_again)
qed

text \<open>The stack of the low-tier descriptor is one.\<close>

theorem notification_attached_once_witness:
  "\<exists>r. PipelineStack devEnvironment = Inr r
     \<and> length (notificationRules (stack r)) = 1
     \<and> attachNotification devEnvironment (pipeline r) (stack r)
         = Inl (DuplicateConstruct ''bridge-api-codestar-notification'')"
proof -
  from devEnvironment_constructed obtain r where r: "PipelineStack devEnvironment = Inr r" ..
  from notification_attached_once [OF r] r show ?thesis by blast
qed

text \<open>
  C8 as stated fails: attaching the same rule for the same pipeline twice, starting from
  an empty scope, ends in an error.
\<close>

theorem second_attachment_rejected:
  "andThen
     (attachNotification devEnvironment emptyStages \<lparr>children = [], notificationRules = []\<rparr>)
     (attachNotification devEnvironment emptyStages)
   = Inl (DuplicateConstruct ''bridge-api-codestar-notification'')"
  by (simp add: attachNotification_def valueForStringParameter_def newCfnNotificationRule_def
      newConstruct_def codepipelinebuildStar_def)

text \<open>
  C9. In every pipeline the constructor returns there is an Approval stage if and only
  if that stage holds a manual-approval action, and both are the case exactly when
  \<^verbatim>\<open>ENV\<close> is not \<^verbatim>\<open>'dev'\<close>. Every manual-approval action of the pipeline is in the
  Approval stage, and no stage named Approval is without actions.
\<close>

theorem approval_stage_iff_action:
  assumes "PipelineStack environment = Inr r"
  shows "(''Approval'' \<in> set (stageNames (pipeline r)))
         = (filter isManualApproval (actionsOf ''Approval'' (pipeline r)) \<noteq> [])
     \<and> (''Approval'' \<in> set (stageNames (pipeline r))) = (ENV environment \<noteq> ''dev'')
     \<and> (filter isManualApproval (allActions (pipeline r)) \<noteq> []) = (ENV environment \<noteq> ''dev'')
     \<and> filter isManualApproval (allActions (pipeline r))
         = filter isManualApproval (actionsOf ''Approval'' (pipeline r))
     \<and> filter (\<lambda>s. stageName s = ''Approval'' \<and> actions s = []) (stages (pipeline r)) = []"
  using assms
proof (cases rule: PipelineStack_cases)
  case dev
  then show ?thesis
    by (simp add: actionsOf_def findStage_def stageNames_def allActions_def
          sourceAction_def buildAction_def deployAction_def approvalAction_def)
next
  case not_dev
  then show ?thesis
    by (simp add: actionsOf_def findStage_def stageNames_def allActions_def
          sourceAction_def buildAction_def deployAction_def approvalAction_def)
qed

text \<open>
  The production descriptor's pipeline has the stage and the action; the low tier's has
  neither.
\<close>

theorem approval_stage_iff_action_witness:
  "(\<exists>r. PipelineStack prodEnvironment = Inr r
      \<and> ''Approval'' \<in> set (stageNames (pipeline r))
      \<and> filter isManualApproval (actionsOf ''Approval'' (pipeline r)) \<noteq> []
      \<and> filter isManualApproval (allActions (pipeline r))
          = filter isManualApproval (actionsOf ''Approval'' (pipeline r)))
   \<and> (\<exists>r. PipelineStack devEnvironment = Inr r
      \<and> ''Approval'' \<notin> set (stageNames (pipeline r))
      \<and> filter isManualApproval (allActions (pipeline r)) = [])"
proof -
  from prodEnvironment_constructed obtain rp where rp: "PipelineStack prodEnvironment = Inr rp" ..
  from devEnvironment_constructed obtain rd where rd: "PipelineStack devEnvironment = Inr rd" ..
  from approval_stage_iff_action [OF rp] approval_stage_iff_action [OF rd] rp rd
  show ?thesis by auto
qed

text \<open>
  C10. Whenever the constructor returns, the Source stage holds the source action, whose
  owner is \<^verbatim>\<open>CoolBitX-Technology\<close> and whose repository is \<^verbatim>\<open>sygna-bridge-api\<close>; its
  credential, trigger and output are fixed as well. The branch passed to it is the
  descriptor's branch, and the branch it is configured with is that branch, or
  \<^verbatim>\<open>master\<close> when the descriptor's branch is empty.
\<close>

theorem source_repository_fixed:
  assumes "PipelineStack environment = Inr r"
  shows "actionsOf ''Source'' (pipeline r) = [sourceAction environment]
     \<and> owner (sourceAction environment) = ''CoolBitX-Technology''
     \<and> repo (sourceAction environment) = ''sygna-bridge-api''
     \<and> sourceBranch (sourceAction environment) = branch environment
     \<and> configuredBranch (sourceAction environment)
         = (if branch environment = [] then ''master'' else branch environment)
     \<and> oauthToken (sourceAction environment) = secretsManager ''bridge-githubAccessToken''
     \<and> trigger (sourceAction environment) = WEBHOOK
     \<and> outputArtifact (sourceAction environment) = sourceOutput
     \<and> artifactName sourceOutput = ''sourceOutput''"
  using assms
proof (cases rule: PipelineStack_cases)
  case dev
  then show ?thesis
    by (simp add: actionsOf_def findStage_def sourceAction_def oauthSecret_def
        configuredBranch_def)
next
  case not_dev
  then show ?thesis
    by (simp add: actionsOf_def findStage_def sourceAction_def oauthSecret_def
        configuredBranch_def)
qed

text \<open>The two descriptors, with the branches \<^verbatim>\<open>main\<close> and \<^verbatim>\<open>develop\<close>.\<close>

theorem source_repository_fixed_witness:
  "(\<exists>r. PipelineStack prodEnvironment = Inr r
      \<and> actionsOf ''Source'' (pipeline r) = [sourceAction prodEnvironment]
      \<and> owner (sourceAction prodEnvironment) = ''CoolBitX-Technology''
      \<and> repo (sourceAction prodEnvironment) = ''sygna-bridge-api''
      \<and> configuredBranch (sourceAction prodEnvironment) = ''main'')
   \<and> (\<exists>r. PipelineStack devEnvironment = Inr r
      \<and> actionsOf ''Source'' (pipeline r) = [sourceAction devEnvironment]
      \<and> owner (sourceAction devEnvironment) = ''CoolBitX-Technology''
      \<and> repo (sourceAction devEnvironment) = ''sygna-bridge-api''
      \<and> configuredBranch (sourceAction devEnvironment) = ''develop'')"
proof -
  from prodEnvironment_constructed obtain rp where rp: "PipelineStack prodEnvironment = Inr rp" ..
  from devEnvironment_constructed obtain rd where rd: "PipelineStack devEnvironment = Inr rd" ..
  have "branch prodEnvironment = ''main''" "branch devEnvironment = ''develop''"
    by (simp_all add: prodEnvironment_def devEnvironment_def)
  with source_repository_fixed [OF rp] source_repository_fixed [OF rd] rp rd
  show ?thesis by auto
qed

end
